theory Spec2Isabelle
  imports Complex_Main "HOL-Library.Word" "HOL-Library.Signed_Division"
begin

unbundle bit_operations_syntax

section \<open>C arithmetic\<close>

text \<open>
  The driver computes in C \<open>int\<close> (32 bits). A value of type \<open>int\<close> is modelled by a HOL
  integer between \<open>INT_MIN\<close> and \<open>INT_MAX\<close>. Signed overflow and division by zero have no
  defined result in C: an operation that runs into either ends the call with a
  \<open>fault\<close> (\<open>Inl\<close>) instead of a value. C division truncates towards zero (\<open>sdiv\<close>).
\<close>

datatype fault =
    Assertion_failed
  | Null_dereference
  | Signed_overflow
  | Division_by_zero
  | Conversion_out_of_range

definition INT_MIN :: int where
  "INT_MIN = - (2 ^ 31)"

definition INT_MAX :: int where
  "INT_MAX = 2 ^ 31 - 1"

definition seq :: "fault + 'a \<Rightarrow> ('a \<Rightarrow> fault + 'b) \<Rightarrow> fault + 'b" where
  "seq m f = (case m of Inl e \<Rightarrow> Inl e | Inr x \<Rightarrow> f x)"

definition c_int :: "int \<Rightarrow> fault + int" where
  "c_int x = (if INT_MIN \<le> x \<and> x \<le> INT_MAX then Inr x else Inl Signed_overflow)"

definition c_sub :: "int \<Rightarrow> int \<Rightarrow> fault + int" where
  "c_sub a b = c_int (a - b)"

definition c_mul :: "int \<Rightarrow> int \<Rightarrow> fault + int" where
  "c_mul a b = c_int (a * b)"

definition c_neg :: "int \<Rightarrow> fault + int" where
  "c_neg a = c_int (- a)"

definition c_div :: "int \<Rightarrow> int \<Rightarrow> fault + int" where
  "c_div a b = (if b = 0 then Inl Division_by_zero else c_int (a sdiv b))"

text \<open>
  \<open>a / (double) b\<close> stored into an \<open>int\<close>: both operands are converted to \<open>double\<close>
  exactly (every 32-bit integer is a \<open>double\<close>), divided, and the quotient is converted
  back, which drops the fraction. With \<open>b = 0\<close> the quotient is an infinity or a NaN,
  whose conversion to \<open>int\<close> is undefined. Otherwise the IEEE quotient is the real
  quotient rounded to 53 bits; as the dividend is below \<open>2 ^ 53\<close>, rounding never reaches
  the next integer, so the integer part is that of the real quotient.
\<close>

definition c_div_double :: "int \<Rightarrow> int \<Rightarrow> fault + int" where
  "c_div_double a b =
     (if b = 0 then Inl Conversion_out_of_range
      else let q = real_of_int a / real_of_int b;
               t = (if 0 \<le> q then \<lfloor>q\<rfloor> else \<lceil>q\<rceil>)
           in if INT_MIN \<le> t \<and> t \<le> INT_MAX then Inr t else Inl Conversion_out_of_range)"

section \<open>The driver instance and its surroundings\<close>

type_synonym byte = "8 word"

text \<open>\<open>struct _INA219\<close> (ina219.c).\<close>

record INA219 =
  i2c_dev :: string
  i2c_addr :: int
  fd :: int
  shunt_milliohms :: int
  battery_voltage_0_percent :: int
  battery_voltage_100_percent :: int
  battery_capacity :: int
  min_charging_current :: int

text \<open>\<open>INA219ChargeStatus\<close> and \<open>INA_FULL_PERCENT\<close> (ina219.h), the register numbers (ina219.c).\<close>

datatype INA219ChargeStatus = INA219_FULLY_CHARGED | INA219_CHARGING | INA219_DISCHARGING

definition INA_FULL_PERCENT :: int where
  "INA_FULL_PERCENT = 99"

definition SHUNT_REG :: byte where
  "SHUNT_REG = 1"

definition BUS_REG :: byte where
  "BUS_REG = 2"

text \<open>
  The operating system is outside the program. Its side of every system call is an
  \<open>answer\<close>: the call's return value, for a two-byte \<open>read\<close> the two bytes found in the
  buffer afterwards, and the text \<open>strerror (errno)\<close> gives after the call. The \<open>world\<close>
  holds the answer the kernel will give to the n-th system call, the calls made so far
  (oldest first), and the messages stored so far through the caller's \<open>char **error\<close>
  (oldest first; the caller's \<open>char *\<close> holds the last one).
\<close>

datatype syscall =
    Sys_open string
  | Sys_ioctl int int
  | Sys_close int
  | Sys_write int "byte list"
  | Sys_read int nat

record answer =
  ret :: int
  buff :: "byte \<times> byte"
  strerror :: string

record world =
  kernel :: "nat \<Rightarrow> answer"
  calls :: "syscall list"
  error_msgs :: "string list"

definition sys_call :: "syscall \<Rightarrow> world \<Rightarrow> answer \<times> world" where
  "sys_call c w = (kernel w (length (calls w)), w\<lparr>calls := calls w @ [c]\<rparr>)"

text \<open>
  \<open>if (error) asprintf (error, ...)\<close>: the argument \<open>error\<close> of the model says whether
  the pointer is non-null. The allocation inside \<open>asprintf\<close> is taken to succeed.
\<close>

definition asprintf :: "bool \<Rightarrow> string \<Rightarrow> world \<Rightarrow> world" where
  "asprintf error msg w = (if error then w\<lparr>error_msgs := error_msgs w @ [msg]\<rparr> else w)"

section \<open>Register transport\<close>

text \<open>
  \<open>*data = (buff[0] << 8) | buff[1]\<close>: the bytes are promoted to \<open>int\<close>, and the result
  (0 to 65535) is converted to \<open>int16_t\<close>, which keeps its low 16 bits.
\<close>

definition int16_of_bytes :: "byte \<Rightarrow> byte \<Rightarrow> 16 word" where
  "int16_of_bytes b0 b1 = word_of_int (push_bit 8 (uint b0) OR uint b1)"

text \<open>
  \<open>ina219_register_read_16\<close>. The result \<open>Some d\<close> stands for the return value \<open>TRUE\<close>
  with \<open>d\<close> stored in \<open>*data\<close>, \<open>None\<close> for \<open>FALSE\<close> with \<open>*data\<close> left alone.
\<close>

definition ina219_register_read_16 ::
  "INA219 \<Rightarrow> byte \<Rightarrow> bool \<Rightarrow> world \<Rightarrow> fault + (16 word option \<times> world)" where
  "ina219_register_read_16 self reg error w =
     (if \<not> fd self \<ge> 0 then Inl Assertion_failed
      else
        let (a, w1) = sys_call (Sys_write (fd self) [reg]) w in
        if ret a \<noteq> 0 then
          (let (b, w2) = sys_call (Sys_read (fd self) 2) w1 in
           if ret b = 2 then Inr (Some (int16_of_bytes (fst (buff b)) (snd (buff b))), w2)
           else Inr (None,
             asprintf error (''Failed to read I2C device: '' @ strerror b @ [CHR 0x0A]) w2))
        else Inr (None,
          asprintf error (''Failed to write I2C device: '' @ strerror a @ [CHR 0x0A]) w1))"

text \<open>
  \<open>ina219_get_bus_voltage\<close>: \<open>*mv = (regval & 0xFFF8) >> 1\<close>, with \<open>regval\<close> promoted to
  \<open>int\<close> (sign-extended) first. \<open>Some mv\<close> again stands for \<open>TRUE\<close> with \<open>*mv\<close> written.
\<close>

definition ina219_get_bus_voltage ::
  "INA219 \<Rightarrow> bool \<Rightarrow> world \<Rightarrow> fault + (int option \<times> world)" where
  "ina219_get_bus_voltage self error w =
     (case ina219_register_read_16 self BUS_REG error w of
        Inl f \<Rightarrow> Inl f
      | Inr (None, w1) \<Rightarrow> Inr (None, w1)
      | Inr (Some regval, w1) \<Rightarrow> Inr (Some (drop_bit 1 (sint regval AND 0xFFF8)), w1))"

text \<open>\<open>ina219_get_shunt_voltage\<close>: \<open>*mv = regval / 100\<close>.\<close>

definition ina219_get_shunt_voltage ::
  "INA219 \<Rightarrow> bool \<Rightarrow> world \<Rightarrow> fault + (int option \<times> world)" where
  "ina219_get_shunt_voltage self error w =
     (case ina219_register_read_16 self SHUNT_REG error w of
        Inl f \<Rightarrow> Inl f
      | Inr (None, w1) \<Rightarrow> Inr (None, w1)
      | Inr (Some regval, w1) \<Rightarrow> Inr (Some (sint regval sdiv 100), w1))"

section \<open>Life cycle\<close>

text \<open>\<open>ina219_create\<close>: stores its arguments; the descriptor starts at \<open>-1\<close>.\<close>

definition ina219_create :: "string \<Rightarrow> int \<Rightarrow> int \<Rightarrow> int \<Rightarrow> int \<Rightarrow> int \<Rightarrow> int \<Rightarrow> INA219" where
  "ina219_create dev addr shunt v0 v100 capacity min_current =
     \<lparr>i2c_dev = dev, i2c_addr = addr, fd = - 1, shunt_milliohms = shunt,
      battery_voltage_0_percent = v0, battery_voltage_100_percent = v100,
      battery_capacity = capacity, min_charging_current = min_current\<rparr>"

text \<open>
  \<open>ina219_init\<close>: the result of \<open>open\<close> is stored in \<open>self->fd\<close> whatever it is; both
  failure branches call \<open>asprintf (error, ...)\<close> without testing \<open>error\<close>, which
  dereferences a null pointer when the caller passed none.
\<close>

definition ina219_init :: "INA219 \<Rightarrow> bool \<Rightarrow> world \<Rightarrow> fault + (bool \<times> INA219 \<times> world)" where
  "ina219_init self error w =
     (let (a, w1) = sys_call (Sys_open (i2c_dev self)) w;
          self1 = self\<lparr>fd := ret a\<rparr>
      in if fd self1 \<ge> 0 then
           (let (b, w2) = sys_call (Sys_ioctl (fd self1) (i2c_addr self1)) w1 in
            if ret b \<ge> 0 then Inr (True, self1, w2)
            else if error then
              Inr (False, self1, asprintf error (''Can't intialize I2C device: '' @ strerror b) w2)
            else Inl Null_dereference)
         else if error then
           Inr (False, self1, asprintf error (''Can't open I2C device: '' @ strerror a) w1)
         else Inl Null_dereference)"

text \<open>\<open>ina219_uninit\<close>: \<open>if (self->fd >= 0) close (self->fd); self->fd = -1;\<close>\<close>

definition ina219_uninit :: "INA219 \<Rightarrow> world \<Rightarrow> INA219 \<times> world" where
  "ina219_uninit self w =
     (let w1 = (if fd self \<ge> 0 then snd (sys_call (Sys_close (fd self)) w) else w)
      in (self\<lparr>fd := - 1\<rparr>, w1))"

section \<open>Battery status\<close>

text \<open>
  The caller's five variables behind the output pointers of \<open>ina219_get_status\<close>. The
  function writes through the pointers as it goes, so the model takes the variables as
  they were before the call and returns them as they are after it, next to the return
  value.
\<close>

record status_vars =
  charge_status :: INA219ChargeStatus
  battery_voltage_mv :: int
  percent_charged :: int
  battery_current_mA :: int
  minutes :: int

definition ina219_get_status ::
  "INA219 \<Rightarrow> status_vars \<Rightarrow> bool \<Rightarrow> world \<Rightarrow> fault + (bool \<times> status_vars \<times> world)" where
  "ina219_get_status self vars error w =
     (case ina219_get_bus_voltage self error w of
        Inl f \<Rightarrow> Inl f
      | Inr (None, w1) \<Rightarrow> Inr (False, vars, w1)
      | Inr (Some mv, w1) \<Rightarrow>
         (let vars1 = vars\<lparr>battery_voltage_mv := mv\<rparr> in
          seq (c_sub mv (battery_voltage_0_percent self)) (\<lambda>d.
          seq (c_mul 100 d) (\<lambda>n.
          seq (c_sub (battery_voltage_100_percent self) (battery_voltage_0_percent self)) (\<lambda>span.
          seq (c_div n span) (\<lambda>p.
          let p1 = (if p > 100 then 100 else p);
              p2 = (if p1 < 0 then 0 else p1);
              vars2 = vars1\<lparr>percent_charged := p2\<rparr>
          in
          (case ina219_get_shunt_voltage self error w1 of
             Inl f \<Rightarrow> Inl f
           | Inr (None, w2) \<Rightarrow> Inr (False, vars2, w2)
           | Inr (Some mv', w2) \<Rightarrow>
              seq (c_mul mv' 1000) (\<lambda>m.
              seq (c_div m (shunt_milliohms self)) (\<lambda>mA.
              let vars3 = vars2\<lparr>battery_current_mA := mA\<rparr>;
                  vars4 = vars3\<lparr>charge_status :=
                    (if p2 \<ge> INA_FULL_PERCENT \<or> mA < min_charging_current self
                     then INA219_FULLY_CHARGED
                     else if mA > 0 then INA219_CHARGING else INA219_DISCHARGING)\<rparr>
              in
              if charge_status vars4 = INA219_FULLY_CHARGED then
                Inr (True, vars4\<lparr>minutes := 0\<rparr>, w2)
              else if mA \<ge> 0 then
                seq (c_sub 100 p2) (\<lambda>rest.
                seq (c_mul rest (battery_capacity self)) (\<lambda>scaled.
                seq (c_div scaled 100) (\<lambda>remaining_capacity.
                seq (c_mul 3600 remaining_capacity) (\<lambda>mAs.
                seq (c_div_double mAs mA) (\<lambda>sec.
                seq (c_div sec 60) (\<lambda>mins.
                Inr (True, vars4\<lparr>minutes := mins\<rparr>, w2)))))))
              else
                seq (c_mul p2 (battery_capacity self)) (\<lambda>scaled.
                seq (c_div scaled 100) (\<lambda>remaining_capacity.
                seq (c_mul 3600 remaining_capacity) (\<lambda>mAs.
                seq (c_neg mA) (\<lambda>drain.
                seq (c_div_double mAs drain) (\<lambda>sec.
                seq (c_div sec 60) (\<lambda>mins.
                Inr (True, vars4\<lparr>minutes := mins\<rparr>, w2))))))))))))))))"


section \<open>Concrete runs\<close>

text \<open>
  A kernel that answers from a list and fails every later call, and the three kinds
  of answers the runs below use.
\<close>

definition returned :: "int \<Rightarrow> answer" where
  "returned n = \<lparr>ret = n, buff = (0, 0), strerror = ''Success''\<rparr>"

definition delivered :: "byte \<Rightarrow> byte \<Rightarrow> answer" where
  "delivered b0 b1 = \<lparr>ret = 2, buff = (b0, b1), strerror = ''Success''\<rparr>"

definition failed :: "string \<Rightarrow> answer" where
  "failed msg = \<lparr>ret = - 1, buff = (0, 0), strerror = msg\<rparr>"

definition scripted :: "answer list \<Rightarrow> world" where
  "scripted ans =
     \<lparr>kernel = (\<lambda>n. if n < length ans then ans ! n else failed ''Input/output error''),
      calls = [], error_msgs = []\<rparr>"

text \<open>
  The instance \<open>main\<close> creates (main.c), with descriptor 3 as after a successful
  \<open>ina219_init\<close>, and caller variables holding values no run below computes.
\<close>

definition main_ina219 :: INA219 where
  "main_ina219 = (ina219_create ''/dev/i2c-1'' 0x42 100 6000 8260 2400 10)\<lparr>fd := 3\<rparr>"

definition stale :: status_vars where
  "stale = \<lparr>charge_status = INA219_DISCHARGING, battery_voltage_mv = - 1,
     percent_charged = - 1, battery_current_mA = - 1, minutes = - 1\<rparr>"

section \<open>Arithmetic facts\<close>

lemma seqE:
  assumes "seq m f = Inr y"
  obtains x where "m = Inr x" and "f x = Inr y"
  using assms by (cases m) (simp_all add: seq_def)

lemma c_int_eq_Inr: "c_int x = Inr y \<longleftrightarrow> INT_MIN \<le> x \<and> x \<le> INT_MAX \<and> y = x"
  by (auto simp add: c_int_def)

lemma c_sub_Inr: "c_sub a b = Inr y \<Longrightarrow> y = a - b"
  by (simp add: c_sub_def c_int_eq_Inr)

lemma c_mul_Inr: "c_mul a b = Inr y \<Longrightarrow> y = a * b"
  by (simp add: c_mul_def c_int_eq_Inr)


lemma clamp_max_min:
  "(if (if 100 < p then 100 else p) < 0 then 0 else if 100 < p then 100 else p)
     = max 0 (min 100 (p::int))"
  by (simp add: max_def min_def)

lemma sdiv_pos_divisor:
  "0 < b \<Longrightarrow> (a::int) sdiv b = (if 0 \<le> a then a div b else - ((- a) div b))"
  by (simp add: signed_divide_int_def sgn_if)

text \<open>Sign extension does not reach the mask: only the low 16 bits of \<open>regval\<close> count.\<close>

lemma bit_FFF8: "bit (0xFFF8::int) n \<Longrightarrow> n < 16"
proof -
  assume b: "bit (0xFFF8::int) n"
  have e: "take_bit 16 (0xFFF8::int) = 0xFFF8" by simp
  from b have "bit (take_bit 16 (0xFFF8::int)) n" by (simp only: e)
  then show "n < 16" by (simp only: bit_take_bit_iff)
qed

lemma mask16: "sint (r :: 16 word) AND 0xFFF8 = uint r AND 0xFFF8"
  by (rule bit_eqI) (auto simp add: bit_and_iff bit_sint_iff bit_uint_iff dest: bit_FFF8)

lemma uint_drop_bit: "uint (drop_bit n (x :: 'a::len word)) = drop_bit n (uint x)"
  by (simp add: unsigned_drop_bit_eq bintr_uint)

lemma bus_decode:
  "drop_bit 1 (sint (r :: 16 word) AND 0xFFF8) = uint (drop_bit 1 (r AND 0xFFF8))"
proof -
  have "uint (drop_bit 1 (r AND 0xFFF8)) = drop_bit 1 (uint r AND uint (0xFFF8 :: 16 word))"
    by (simp only: uint_drop_bit uint_and)
  also have "uint (0xFFF8 :: 16 word) = 0xFFF8"
    by simp
  finally show ?thesis
    by (simp only: mask16)
qed

section \<open>What one register read does\<close>

lemma register_read_16_Some:
  assumes "ina219_register_read_16 self reg error w = Inr (Some d, w')"
  shows "ret (kernel w (length (calls w))) \<noteq> 0 \<and>
         ret (kernel w (Suc (length (calls w)))) = 2 \<and>
         d = int16_of_bytes (fst (buff (kernel w (Suc (length (calls w))))))
                            (snd (buff (kernel w (Suc (length (calls w)))))) \<and>
         w' = w\<lparr>calls := calls w @ [Sys_write (fd self) [reg], Sys_read (fd self) 2]\<rparr>"
  using assms
  by (simp add: ina219_register_read_16_def sys_call_def asprintf_def Let_def split: if_splits)

lemma register_read_16_None:
  assumes "ina219_register_read_16 self reg error w = Inr (None, w')"
  shows "(calls w' = calls w @ [Sys_write (fd self) [reg]] \<or>
          calls w' = calls w @ [Sys_write (fd self) [reg], Sys_read (fd self) 2]) \<and>
         (\<exists>m. error_msgs w' = (if error then error_msgs w @ [m] else error_msgs w))"
  using assms
  by (auto simp add: ina219_register_read_16_def sys_call_def asprintf_def Let_def split: if_splits)

lemma get_bus_voltage_Some:
  assumes "ina219_get_bus_voltage self error w = Inr (Some v, w')"
  shows "\<exists>r. ina219_register_read_16 self BUS_REG error w = Inr (Some r, w') \<and>
             v = drop_bit 1 (sint r AND 0xFFF8)"
  using assms
  by (auto simp add: ina219_get_bus_voltage_def split: sum.splits option.splits)

lemma get_bus_voltage_None:
  assumes "ina219_get_bus_voltage self error w = Inr (None, w')"
  shows "ina219_register_read_16 self BUS_REG error w = Inr (None, w')"
  using assms
  by (auto simp add: ina219_get_bus_voltage_def split: sum.splits option.splits)

lemma get_shunt_voltage_Some:
  assumes "ina219_get_shunt_voltage self error w = Inr (Some v, w')"
  shows "\<exists>r. ina219_register_read_16 self SHUNT_REG error w = Inr (Some r, w') \<and>
             v = sint r sdiv 100"
  using assms
  by (auto simp add: ina219_get_shunt_voltage_def split: sum.splits option.splits)

lemma get_shunt_voltage_None:
  assumes "ina219_get_shunt_voltage self error w = Inr (None, w')"
  shows "ina219_register_read_16 self SHUNT_REG error w = Inr (None, w')"
  using assms
  by (auto simp add: ina219_get_shunt_voltage_def split: sum.splits option.splits)

lemma register_read_16_msgs:
  assumes "ina219_register_read_16 self reg error w = Inr (r, w')"
  shows "(r \<noteq> None \<longrightarrow> error_msgs w' = error_msgs w) \<and>
         (\<exists>ms. error_msgs w' = error_msgs w @ ms \<and> length ms \<le> 1)"
proof (cases r)
  case None
  with register_read_16_None [of self reg error w w'] assms show ?thesis
    by auto
next
  case (Some d)
  with register_read_16_Some [of self reg error w d w'] assms show ?thesis
    by simp
qed

lemma get_bus_voltage_msgs:
  assumes "ina219_get_bus_voltage self error w = Inr (r, w')"
  shows "(r \<noteq> None \<longrightarrow> error_msgs w' = error_msgs w) \<and>
         (\<exists>ms. error_msgs w' = error_msgs w @ ms \<and> length ms \<le> 1)"
proof (cases r)
  case None
  with get_bus_voltage_None [of self error w w'] assms
  have "ina219_register_read_16 self BUS_REG error w = Inr (None, w')" by simp
  from register_read_16_msgs [OF this] None show ?thesis by simp
next
  case (Some v)
  with get_bus_voltage_Some [of self error w v w'] assms
  obtain d where "ina219_register_read_16 self BUS_REG error w = Inr (Some d, w')" by auto
  from register_read_16_msgs [OF this] Some show ?thesis by simp
qed

lemma get_shunt_voltage_msgs:
  assumes "ina219_get_shunt_voltage self error w = Inr (r, w')"
  shows "(r \<noteq> None \<longrightarrow> error_msgs w' = error_msgs w) \<and>
         (\<exists>ms. error_msgs w' = error_msgs w @ ms \<and> length ms \<le> 1)"
proof (cases r)
  case None
  with get_shunt_voltage_None [of self error w w'] assms
  have "ina219_register_read_16 self SHUNT_REG error w = Inr (None, w')" by simp
  from register_read_16_msgs [OF this] None show ?thesis by simp
next
  case (Some v)
  with get_shunt_voltage_Some [of self error w v w'] assms
  obtain d where "ina219_register_read_16 self SHUNT_REG error w = Inr (Some d, w')" by auto
  from register_read_16_msgs [OF this] Some show ?thesis by simp
qed

section \<open>The shape of a status query\<close>

text \<open>
  What a call of \<open>ina219_get_status\<close> that returns has done, once its bus read succeeded:
  it has computed the percentage, and then either the shunt read failed, with voltage
  and percentage already stored, or all five variables are stored.
\<close>

lemma get_status_bus_ok:
  assumes bus: "ina219_get_bus_voltage self error w = Inr (Some v, w1)"
    and run: "ina219_get_status self vars error w = Inr (ok, vars', w')"
  shows "\<exists>p. c_div (100 * (v - battery_voltage_0_percent self))
                (battery_voltage_100_percent self - battery_voltage_0_percent self) = Inr p \<and>
          ((ina219_get_shunt_voltage self error w1 = Inr (None, w') \<and> \<not> ok \<and>
            vars' = vars\<lparr>battery_voltage_mv := v, percent_charged := max 0 (min 100 p)\<rparr>) \<or>
           (\<exists>sv mA mins. ina219_get_shunt_voltage self error w1 = Inr (Some sv, w') \<and>
              c_div (sv * 1000) (shunt_milliohms self) = Inr mA \<and> ok \<and>
              vars' = vars\<lparr>battery_voltage_mv := v, percent_charged := max 0 (min 100 p),
                      battery_current_mA := mA,
                      charge_status :=
                        (if 99 \<le> max 0 (min 100 p) \<or> mA < min_charging_current self
                         then INA219_FULLY_CHARGED
                         else if 0 < mA then INA219_CHARGING else INA219_DISCHARGING),
                      minutes := mins\<rparr>))"
  using run unfolding ina219_get_status_def bus
  apply (simp only: sum.case prod.case option.case Let_def clamp_max_min)
  apply (erule seqE)+
  apply (drule c_sub_Inr c_mul_Inr)+
  apply (cases "ina219_get_shunt_voltage self error w1")
   apply simp
  subgoal for d n span p r
    apply (cases r)
    subgoal for b w2
      apply (cases b)
       apply simp
      apply (simp only: sum.case prod.case option.case)
      apply (erule seqE)+
      apply (drule c_mul_Inr)
      apply (auto simp add: INA_FULL_PERCENT_def split: if_splits elim!: seqE)
      done
    done
  done

lemma get_status_bus_failed:
  assumes bus: "ina219_get_bus_voltage self error w = Inr (None, w1)"
  shows "ina219_get_status self vars error w = Inr (False, vars, w1)"
  using bus by (simp add: ina219_get_status_def)

lemma get_status_bus_result:
  assumes run: "ina219_get_status self vars error w = Inr (ok, vars', w')"
  obtains b w1 where "ina219_get_bus_voltage self error w = Inr (b, w1)"
  using run
  by (cases "ina219_get_bus_voltage self error w")
     (auto simp add: ina219_get_status_def)

lemma get_status_msgs:
  assumes run: "ina219_get_status self vars error w = Inr (ok, vars', w')"
  shows "(ok \<longrightarrow> error_msgs w' = error_msgs w) \<and>
         (\<exists>ms. error_msgs w' = error_msgs w @ ms \<and> length ms \<le> 1)"
proof -
  from run obtain b w1 where bus: "ina219_get_bus_voltage self error w = Inr (b, w1)"
    by (rule get_status_bus_result)
  show ?thesis
  proof (cases b)
    case None
    with bus run have "\<not> ok" and "w' = w1"
      by (simp_all add: get_status_bus_failed)
    with get_bus_voltage_msgs [OF bus] show ?thesis
      by simp
  next
    case (Some v)
    with bus have same: "error_msgs w1 = error_msgs w"
      using get_bus_voltage_msgs [OF bus] by simp
    from get_status_bus_ok [OF bus [unfolded Some] run]
    consider "ina219_get_shunt_voltage self error w1 = Inr (None, w')" and "\<not> ok"
      | sv where "ina219_get_shunt_voltage self error w1 = Inr (Some sv, w')"
      by auto
    then show ?thesis
    proof cases
      case 1
      with get_shunt_voltage_msgs [OF 1(1)] same show ?thesis by simp
    next
      case 2
      with get_shunt_voltage_msgs [OF 2] same show ?thesis by simp
    qed
  qed
qed

section \<open>A status query returns\<close>

text \<open>
  Once the bus read has succeeded, \<open>ina219_get_status\<close> returns whenever the
  percentage expression stays within \<open>int\<close>, the shunt resistance is not 0, the capacity
  is between 0 and 596523 mAh and the minimum charging current is positive: no later
  step overflows or divides by zero, whatever the kernel answers
  (\<open>get_status_defined\<close>). In particular it returns for every open descriptor and
  reference voltages in order and within a million millivolts
  (\<open>get_status_returns\<close>).
\<close>

lemma c_int_ok: "INT_MIN \<le> x \<Longrightarrow> x \<le> INT_MAX \<Longrightarrow> c_int x = Inr x"
  by (simp add: c_int_def)

lemma sdiv_abs_le: "\<bar>(a::int) sdiv b\<bar> \<le> \<bar>a\<bar>"
proof (cases "a = 0 \<or> b = 0")
  case True
  then show ?thesis by auto
next
  case False
  then have q: "0 \<le> \<bar>a\<bar> div \<bar>b\<bar>"
    by (simp add: pos_imp_zdiv_nonneg_iff)
  from False q have "\<bar>a sdiv b\<bar> = \<bar>a\<bar> div \<bar>b\<bar>"
    by (simp add: signed_divide_int_def abs_mult abs_sgn_eq)
  also from False have "\<dots> \<le> \<bar>a\<bar> div 1"
    by (intro zdiv_mono2) auto
  finally show ?thesis
    by simp
qed

lemma c_div_ok:
  assumes "b \<noteq> 0" and "\<bar>a\<bar> \<le> INT_MAX"
  shows "c_div a b = Inr (a sdiv b)"
proof -
  from sdiv_abs_le [of a b] assms(2) have "\<bar>a sdiv b\<bar> \<le> INT_MAX"
    by simp
  then have "INT_MIN \<le> a sdiv b" and "a sdiv b \<le> INT_MAX"
    by (simp_all add: INT_MIN_def INT_MAX_def abs_le_iff)
  with assms(1) show ?thesis
    by (simp add: c_div_def c_int_ok)
qed

lemma bus_mv_range:
  "0 \<le> drop_bit 1 (sint (r :: 16 word) AND 0xFFF8) \<and>
   drop_bit 1 (sint (r :: 16 word) AND 0xFFF8) \<le> 32764"
proof -
  have hi: "uint r AND 0xFFF8 \<le> 0xFFF8"
    by (rule AND_upper2) simp
  have lo: "0 \<le> uint r AND 0xFFF8"
    by simp
  have "drop_bit 1 (sint r AND 0xFFF8) = (uint r AND 0xFFF8) div 2"
    by (simp only: mask16 drop_bit_eq_div) simp
  with hi lo show ?thesis
    by linarith
qed

lemma shunt_mv_range:
  "\<bar>sint (r :: 16 word) sdiv 100\<bar> \<le> 327"
proof -
  have "- 32768 \<le> sint r" "sint r < 32768"
    using sint_ge [of r] sint_lt [of r] by simp_all
  then have "\<bar>sint r\<bar> \<le> 32768"
    by simp
  then have "\<bar>sint r\<bar> div 100 \<le> 327"
    by linarith
  moreover have "\<bar>sint r sdiv 100\<bar> = \<bar>sint r\<bar> div 100"
    by (simp add: signed_divide_int_def sgn_if abs_mult)
  ultimately show ?thesis
    by simp
qed

lemma c_div_double_ok:
  assumes "0 \<le> a" and "a \<le> INT_MAX" and "0 < b"
  shows "\<exists>t. c_div_double a b = Inr t \<and> 0 \<le> t \<and> t \<le> a"
proof -
  define q where "q = real_of_int a / real_of_int b"
  define t where "t = \<lfloor>q\<rfloor>"
  from assms have q0: "0 \<le> q"
    by (simp add: q_def)
  from assms have "q \<le> real_of_int a"
    by (simp add: q_def divide_le_eq mult_le_cancel_left1)
  then have hi: "t \<le> a"
    by (simp add: t_def floor_le_iff)
  from q0 have lo: "0 \<le> t"
    by (simp add: t_def)
  from assms(3) have "c_div_double a b =
      (let t' = (if 0 \<le> q then t else \<lceil>q\<rceil>)
       in if INT_MIN \<le> t' \<and> t' \<le> INT_MAX then Inr t' else Inl Conversion_out_of_range)"
    unfolding c_div_double_def q_def [symmetric] t_def [symmetric] Let_def by simp
  also from q0 lo hi assms(2) have "\<dots> = Inr t"
    by (simp add: INT_MIN_def)
  finally show ?thesis
    using lo hi by simp
qed

lemma register_read_16_returns:
  assumes "0 \<le> fd self"
  shows "\<exists>r w'. ina219_register_read_16 self reg error w = Inr (r, w')"
  using assms
  by (simp add: ina219_register_read_16_def Let_def split: prod.splits)

lemma seq_Inr: "seq (Inr x) f = f x"
  by (simp add: seq_def)

lemma get_bus_voltage_fd:
  assumes "ina219_get_bus_voltage self error w = Inr r"
  shows "0 \<le> fd self"
  using assms
  by (auto simp add: ina219_get_bus_voltage_def ina219_register_read_16_def
      split: if_splits)

lemma get_status_defined:
  assumes bus: "ina219_get_bus_voltage self error w = Inr (Some v, w1)"
    and span: "battery_voltage_0_percent self < battery_voltage_100_percent self"
    and lo: "INT_MIN \<le> 100 * (v - battery_voltage_0_percent self)"
    and hi: "100 * (v - battery_voltage_0_percent self) \<le> INT_MAX"
    and wide: "battery_voltage_100_percent self - battery_voltage_0_percent self \<le> INT_MAX"
    and shunt: "shunt_milliohms self \<noteq> 0"
    and cap: "0 \<le> battery_capacity self" "battery_capacity self \<le> 596523"
    and minc: "0 < min_charging_current self"
  shows "\<exists>ok vars' w'. ina219_get_status self vars error w = Inr (ok, vars', w')"
proof -
  from get_bus_voltage_fd [OF bus] have fd: "0 \<le> fd self" .
  define p where "p = (100 * (v - battery_voltage_0_percent self))
    sdiv (battery_voltage_100_percent self - battery_voltage_0_percent self)"
  define p2 where "p2 = max 0 (min 100 p)"
  have p2: "0 \<le> p2" "p2 \<le> 100"
    by (simp_all add: p2_def)
  from lo hi
  have d: "c_sub v (battery_voltage_0_percent self) = Inr (v - battery_voltage_0_percent self)"
    by (simp add: c_sub_def c_int_ok INT_MIN_def INT_MAX_def)
  from lo hi
  have n: "c_mul 100 (v - battery_voltage_0_percent self)
             = Inr (100 * (v - battery_voltage_0_percent self))"
    by (simp add: c_mul_def c_int_ok)
  from span wide
  have s: "c_sub (battery_voltage_100_percent self) (battery_voltage_0_percent self)
             = Inr (battery_voltage_100_percent self - battery_voltage_0_percent self)"
    by (simp add: c_sub_def c_int_ok INT_MIN_def)
  from lo have "- 2147483648 \<le> 100 * (v - battery_voltage_0_percent self)"
    by (simp add: INT_MIN_def)
  then have "- 2147483647 \<le> 100 * (v - battery_voltage_0_percent self)"
    by presburger
  with hi have "\<bar>100 * (v - battery_voltage_0_percent self)\<bar> \<le> INT_MAX"
    by (simp add: INT_MAX_def abs_le_iff)
  with span
  have q: "c_div (100 * (v - battery_voltage_0_percent self))
             (battery_voltage_100_percent self - battery_voltage_0_percent self) = Inr p"
    unfolding p_def by (intro c_div_ok) simp_all
  from register_read_16_returns [OF fd]
  obtain rs w2 where rs: "ina219_register_read_16 self SHUNT_REG error w1 = Inr (rs, w2)"
    by blast
  show ?thesis
  proof (cases rs)
    case None
    with rs have sh: "ina219_get_shunt_voltage self error w1 = Inr (None, w2)"
      by (simp add: ina219_get_shunt_voltage_def)
    show ?thesis
      unfolding ina219_get_status_def bus
      by (simp only: sum.case prod.case option.case Let_def clamp_max_min d n s q seq_Inr sh)
        auto
  next
    case (Some r')
    define sv where "sv = sint r' sdiv 100"
    define mA where "mA = (sv * 1000) sdiv shunt_milliohms self"
    from rs Some have sh: "ina219_get_shunt_voltage self error w1 = Inr (Some sv, w2)"
      by (simp add: ina219_get_shunt_voltage_def sv_def)
    from shunt_mv_range [of r'] have sv: "\<bar>sv\<bar> \<le> 327"
      by (simp only: sv_def)
    then have m: "c_mul sv 1000 = Inr (sv * 1000)"
      by (simp add: c_mul_def c_int_ok INT_MIN_def INT_MAX_def abs_le_iff)
    from sv shunt have c: "c_div (sv * 1000) (shunt_milliohms self) = Inr mA"
      unfolding mA_def by (intro c_div_ok) (simp_all add: INT_MAX_def abs_le_iff)
    show ?thesis
    proof (cases "99 \<le> p2 \<or> mA < min_charging_current self")
      case True
      show ?thesis
        unfolding ina219_get_status_def bus
        apply (simp only: sum.case prod.case option.case Let_def clamp_max_min d n s q seq_Inr sh m c)
        using True apply (auto simp add: p2_def INA_FULL_PERCENT_def)
        done
    next
      case False
      with minc have pos: "0 < mA"
        by simp
      define remaining where "remaining = ((100 - p2) * battery_capacity self) sdiv 100"
      from p2 have r1: "c_sub 100 p2 = Inr (100 - p2)"
        by (simp add: c_sub_def c_int_ok INT_MIN_def INT_MAX_def)
      from p2 cap have scaled: "0 \<le> (100 - p2) * battery_capacity self"
        "(100 - p2) * battery_capacity self \<le> 100 * battery_capacity self"
        by (simp_all add: mult_right_mono)
      with cap have r2: "c_mul (100 - p2) (battery_capacity self)
                   = Inr ((100 - p2) * battery_capacity self)"
        by (simp add: c_mul_def c_int_ok INT_MIN_def INT_MAX_def)
      from scaled cap have r3: "c_div ((100 - p2) * battery_capacity self) 100 = Inr remaining"
        unfolding remaining_def by (intro c_div_ok) (simp_all add: INT_MAX_def)
      from scaled have "remaining = ((100 - p2) * battery_capacity self) div 100"
        by (simp add: remaining_def sdiv_pos_divisor)
      with scaled cap have rem: "0 \<le> remaining" "remaining \<le> 596523"
        by simp_all
      then have r4: "c_mul 3600 remaining = Inr (3600 * remaining)"
        by (simp add: c_mul_def c_int_ok INT_MIN_def INT_MAX_def)
      from rem pos c_div_double_ok [of "3600 * remaining" mA]
      obtain sec where r5: "c_div_double (3600 * remaining) mA = Inr sec"
        and sec: "0 \<le> sec" "sec \<le> 3600 * remaining"
        by (auto simp add: INT_MAX_def)
      from sec rem have r6: "c_div sec 60 = Inr (sec sdiv 60)"
        by (intro c_div_ok) (simp_all add: INT_MAX_def)
      show ?thesis
        unfolding ina219_get_status_def bus
        apply (simp only: sum.case prod.case option.case Let_def clamp_max_min d n s q seq_Inr sh m c)
        using False pos apply (simp add: p2_def [symmetric] INA_FULL_PERCENT_def)
        apply (auto simp add: r1 r2 r3 r4 r5 r6 seq_Inr)
        done
    qed
  qed
qed

lemma get_status_returns:
  assumes fd: "0 \<le> fd self"
    and shunt: "0 < shunt_milliohms self"
    and span: "battery_voltage_0_percent self < battery_voltage_100_percent self"
    and v0: "- 1000000 \<le> battery_voltage_0_percent self"
    and v100: "battery_voltage_100_percent self \<le> 1000000"
    and cap: "0 \<le> battery_capacity self" "battery_capacity self \<le> 500000"
    and minc: "0 < min_charging_current self"
  shows "\<exists>ok vars' w'. ina219_get_status self vars error w = Inr (ok, vars', w')"
proof -
  from register_read_16_returns [OF fd]
  obtain rb w1 where rb: "ina219_register_read_16 self BUS_REG error w = Inr (rb, w1)"
    by blast
  show ?thesis
  proof (cases rb)
    case None
    with rb have "ina219_get_bus_voltage self error w = Inr (None, w1)"
      by (simp add: ina219_get_bus_voltage_def)
    then show ?thesis
      by (auto simp add: get_status_bus_failed)
  next
    case (Some r)
    define v where "v = drop_bit 1 (sint r AND 0xFFF8)"
    from rb Some have bus: "ina219_get_bus_voltage self error w = Inr (Some v, w1)"
      by (simp only: ina219_get_bus_voltage_def v_def sum.case prod.case option.case)
    from bus_mv_range [of r] have v: "0 \<le> v" "v \<le> 32764"
      by (simp_all only: v_def)
    from v v0 v100 span shunt cap show ?thesis
      by (intro get_status_defined [OF bus span _ _ _ _ _ _ minc])
        (simp_all add: INT_MIN_def INT_MAX_def)
  qed
qed


section \<open>What opening and closing do to the descriptor\<close>

lemma ina219_create_closed: "fd (ina219_create dev addr shunt v0 v100 capacity min_current) = - 1"
  by (simp add: ina219_create_def)

lemma ina219_uninit_closed: "fd (fst (ina219_uninit self w)) = - 1"
  by (simp add: ina219_uninit_def Let_def)

lemma ina219_init_bound:
  assumes "ina219_init self error w = Inr (True, self', w')"
  shows "0 \<le> fd self' \<and> fd self' = ret (kernel w (length (calls w))) \<and>
         0 \<le> ret (kernel w (Suc (length (calls w)))) \<and>
         calls w' = calls w @ [Sys_open (i2c_dev self), Sys_ioctl (fd self') (i2c_addr self)]"
  using assms
  by (auto simp add: ina219_init_def sys_call_def Let_def split: if_splits)

lemma ina219_init_open_failed:
  assumes "ina219_init self error w = Inr (ok, self', w')"
    and "ret (kernel w (length (calls w))) < 0"
  shows "\<not> ok \<and> fd self' < 0 \<and> calls w' = calls w @ [Sys_open (i2c_dev self)]"
  using assms
  by (auto simp add: ina219_init_def sys_call_def asprintf_def Let_def split: if_splits)

section \<open>Evaluating concrete runs\<close>

lemmas run_defs = ina219_get_status_def ina219_get_bus_voltage_def ina219_get_shunt_voltage_def
  ina219_register_read_16_def sys_call_def asprintf_def scripted_def returned_def delivered_def failed_def
  main_ina219_def ina219_create_def stale_def seq_def c_sub_def c_mul_def c_div_def c_neg_def c_int_def
  c_div_double_def INT_MIN_def INT_MAX_def INA_FULL_PERCENT_def BUS_REG_def SHUNT_REG_def int16_of_bytes_def
  signed_divide_int_def Let_def

lemmas read_defs = ina219_get_bus_voltage_def ina219_get_shunt_voltage_def
  ina219_register_read_16_def sys_call_def asprintf_def scripted_def returned_def delivered_def
  failed_def main_ina219_def ina219_create_def BUS_REG_def SHUNT_REG_def int16_of_bytes_def
  signed_divide_int_def

lemma bus_mv_not_7130: "drop_bit 1 (k AND 0xFFF8) \<noteq> (7130::int)"
proof
  assume "drop_bit 1 (k AND 0xFFF8) = (7130::int)"
  then have "bit (drop_bit 1 (k AND 0xFFF8)) 1 = bit (7130::int) 1"
    by simp
  then show False
    by (simp add: bit_drop_bit_eq bit_and_iff)
qed

section \<open>Classification\<close>

text \<open>
  C1. Whenever \<open>ina219_get_status\<close> returns \<open>TRUE\<close>, the stored status is
  \<open>INA219_FULLY_CHARGED\<close> if and only if the stored percentage is at least 99 or the
  stored current is below \<open>min_charging_current\<close>; otherwise it is \<open>INA219_CHARGING\<close> if and
  only if the current is positive, and \<open>INA219_DISCHARGING\<close> otherwise. The stored
  percentage is the clamped quotient computed from the bus voltage, the stored current
  the quotient computed from the shunt voltage.
\<close>

theorem charge_status_classification:
  assumes run: "ina219_get_status self vars error w = Inr (True, vars', w')"
  shows "charge_status vars' =
           (if 99 \<le> percent_charged vars' \<or> battery_current_mA vars' < min_charging_current self
            then INA219_FULLY_CHARGED
            else if 0 < battery_current_mA vars' then INA219_CHARGING else INA219_DISCHARGING) \<and>
         (\<exists>v w1 sv p. ina219_get_bus_voltage self error w = Inr (Some v, w1) \<and>
            ina219_get_shunt_voltage self error w1 = Inr (Some sv, w') \<and>
            c_div (100 * (v - battery_voltage_0_percent self))
              (battery_voltage_100_percent self - battery_voltage_0_percent self) = Inr p \<and>
            percent_charged vars' = max 0 (min 100 p) \<and>
            c_div (sv * 1000) (shunt_milliohms self) = Inr (battery_current_mA vars'))"
proof -
  from run obtain b w1 where bus: "ina219_get_bus_voltage self error w = Inr (b, w1)"
    by (rule get_status_bus_result)
  from bus run obtain v where b: "b = Some v"
    by (cases b) (simp_all add: get_status_bus_failed)
  from get_status_bus_ok [OF bus [unfolded b] run]
  obtain p sv mA mins where
    p: "c_div (100 * (v - battery_voltage_0_percent self))
          (battery_voltage_100_percent self - battery_voltage_0_percent self) = Inr p"
    and shunt: "ina219_get_shunt_voltage self error w1 = Inr (Some sv, w')"
    and mA: "c_div (sv * 1000) (shunt_milliohms self) = Inr mA"
    and vars': "vars' = vars\<lparr>battery_voltage_mv := v, percent_charged := max 0 (min 100 p),
                      battery_current_mA := mA,
                      charge_status :=
                        (if 99 \<le> max 0 (min 100 p) \<or> mA < min_charging_current self
                         then INA219_FULLY_CHARGED
                         else if 0 < mA then INA219_CHARGING else INA219_DISCHARGING),
                      minutes := mins\<rparr>"
    by auto
  have "charge_status vars' =
           (if 99 \<le> percent_charged vars' \<or> battery_current_mA vars' < min_charging_current self
            then INA219_FULLY_CHARGED
            else if 0 < battery_current_mA vars' then INA219_CHARGING else INA219_DISCHARGING)"
    by (simp add: vars')
  moreover have "percent_charged vars' = max 0 (min 100 p)" and "battery_current_mA vars' = mA"
    by (simp_all add: vars')
  ultimately show ?thesis
    using bus b p shunt mA by auto
qed

text \<open>
  The boundaries of C1 on the instance of \<open>main\<close>: at 99 percent a current of 500 mA
  gives \<open>INA219_FULLY_CHARGED\<close>; at 98 percent a current of 9 mA, one below the minimum
  of 10 (with a 1000 milliohm shunt, which makes 9 mA measurable), gives
  \<open>INA219_FULLY_CHARGED\<close>; at 98 percent a current of exactly 10 mA gives
  \<open>INA219_CHARGING\<close>.
\<close>

theorem charge_status_classification_witness:
  "ina219_get_status main_ina219 stale True
     (scripted [returned 1, delivered 0x40 0x60, returned 1, delivered 0x13 0x88])
     = Inr (True,
         \<lparr>charge_status = INA219_FULLY_CHARGED, battery_voltage_mv = 8240, percent_charged = 99,
          battery_current_mA = 500, minutes = 0\<rparr>,
         (scripted [returned 1, delivered 0x40 0x60, returned 1, delivered 0x13 0x88])
         \<lparr>calls := [Sys_write 3 [2], Sys_read 3 2, Sys_write 3 [1], Sys_read 3 2]\<rparr>) \<and>
   ina219_get_status (main_ina219\<lparr>shunt_milliohms := 1000\<rparr>) stale True
     (scripted [returned 1, delivered 0x40 0x30, returned 1, delivered 0x03 0x84])
     = Inr (True,
         \<lparr>charge_status = INA219_FULLY_CHARGED, battery_voltage_mv = 8216, percent_charged = 98,
          battery_current_mA = 9, minutes = 0\<rparr>,
         (scripted [returned 1, delivered 0x40 0x30, returned 1, delivered 0x03 0x84])
         \<lparr>calls := [Sys_write 3 [2], Sys_read 3 2, Sys_write 3 [1], Sys_read 3 2]\<rparr>) \<and>
   ina219_get_status main_ina219 stale True
     (scripted [returned 1, delivered 0x40 0x30, returned 1, delivered 0x00 0x64])
     = Inr (True,
         \<lparr>charge_status = INA219_CHARGING, battery_voltage_mv = 8216, percent_charged = 98,
          battery_current_mA = 10, minutes = 288\<rparr>,
         (scripted [returned 1, delivered 0x40 0x30, returned 1, delivered 0x00 0x64])
         \<lparr>calls := [Sys_write 3 [2], Sys_read 3 2, Sys_write 3 [1], Sys_read 3 2]\<rparr>)"
proof -
  have full: "ina219_get_status main_ina219 stale True
     (scripted [returned 1, delivered 0x40 0x60, returned 1, delivered 0x13 0x88])
     = Inr (True,
         \<lparr>charge_status = INA219_FULLY_CHARGED, battery_voltage_mv = 8240, percent_charged = 99,
          battery_current_mA = 500, minutes = 0\<rparr>,
         (scripted [returned 1, delivered 0x40 0x60, returned 1, delivered 0x13 0x88])
         \<lparr>calls := [Sys_write 3 [2], Sys_read 3 2, Sys_write 3 [1], Sys_read 3 2]\<rparr>)"
    by (simp add: run_defs)
  have below: "ina219_get_status (main_ina219\<lparr>shunt_milliohms := 1000\<rparr>) stale True
     (scripted [returned 1, delivered 0x40 0x30, returned 1, delivered 0x03 0x84])
     = Inr (True,
         \<lparr>charge_status = INA219_FULLY_CHARGED, battery_voltage_mv = 8216, percent_charged = 98,
          battery_current_mA = 9, minutes = 0\<rparr>,
         (scripted [returned 1, delivered 0x40 0x30, returned 1, delivered 0x03 0x84])
         \<lparr>calls := [Sys_write 3 [2], Sys_read 3 2, Sys_write 3 [1], Sys_read 3 2]\<rparr>)"
    by (simp add: run_defs)
  have at: "ina219_get_status main_ina219 stale True
     (scripted [returned 1, delivered 0x40 0x30, returned 1, delivered 0x00 0x64])
     = Inr (True,
         \<lparr>charge_status = INA219_CHARGING, battery_voltage_mv = 8216, percent_charged = 98,
          battery_current_mA = 10, minutes = 288\<rparr>,
         (scripted [returned 1, delivered 0x40 0x30, returned 1, delivered 0x00 0x64])
         \<lparr>calls := [Sys_write 3 [2], Sys_read 3 2, Sys_write 3 [1], Sys_read 3 2]\<rparr>)"
    by (simp add: run_defs)
  from charge_status_classification [OF full] charge_status_classification [OF below]
    charge_status_classification [OF at]
  show ?thesis
    by (simp only: full below at simp_thms)
qed

section \<open>A failing shunt read\<close>

text \<open>
  C2, as the specification states it, fails: when the bus read succeeds and the shunt
  read fails, \<open>ina219_get_status\<close> returns \<open>FALSE\<close>, but the caller's voltage and
  percentage variables, which held \<open>-1\<close>, now hold the bus voltage 7132 and the
  percentage 50.
\<close>

theorem shunt_failure_leaves_partial_results:
  "ina219_get_status main_ina219 stale True
     (scripted [returned 1, delivered 0x37 0xB8, returned 1, failed ''Remote I/O error''])
     = Inr (False, stale\<lparr>battery_voltage_mv := 7132, percent_charged := 50\<rparr>,
         ((scripted [returned 1, delivered 0x37 0xB8, returned 1, failed ''Remote I/O error''])
         \<lparr>calls := [Sys_write 3 [2], Sys_read 3 2, Sys_write 3 [1], Sys_read 3 2],
          error_msgs := [''Failed to read I2C device: Remote I/O error'' @ [CHR 0x0A]]\<rparr>)) \<and>
   battery_voltage_mv stale = - 1 \<and> percent_charged stale = - 1"
  by (simp add: run_defs)

text \<open>
  C2, amended. When the bus read succeeds and the shunt read fails, a call of
  \<open>ina219_get_status\<close> that returns has returned \<open>FALSE\<close> in the world the failed shunt
  read left, with one message stored through a non-null error pointer; the status,
  current and minutes variables are as they were, and the voltage and percentage
  variables hold the bus voltage and the clamped percentage.
\<close>

theorem shunt_failure_keeps_bus_results:
  assumes bus: "ina219_get_bus_voltage self error w = Inr (Some v, w1)"
    and shunt: "ina219_get_shunt_voltage self error w1 = Inr (None, w2)"
    and run: "ina219_get_status self vars error w = Inr (ok, vars', w')"
  shows "\<not> ok \<and> w' = w2 \<and>
         (\<exists>p. c_div (100 * (v - battery_voltage_0_percent self))
                (battery_voltage_100_percent self - battery_voltage_0_percent self) = Inr p \<and>
              vars' = vars\<lparr>battery_voltage_mv := v, percent_charged := max 0 (min 100 p)\<rparr>) \<and>
         (\<exists>m. error_msgs w' = (if error then error_msgs w @ [m] else error_msgs w))"
proof -
  from get_status_bus_ok [OF bus run] shunt
  obtain p where
    p: "c_div (100 * (v - battery_voltage_0_percent self))
          (battery_voltage_100_percent self - battery_voltage_0_percent self) = Inr p"
    and res: "\<not> ok" "w' = w2"
      "vars' = vars\<lparr>battery_voltage_mv := v, percent_charged := max 0 (min 100 p)\<rparr>"
    by auto
  from get_bus_voltage_msgs [OF bus] have "error_msgs w1 = error_msgs w"
    by simp
  with register_read_16_None [OF get_shunt_voltage_None [OF shunt]] res
  have "\<exists>m. error_msgs w' = (if error then error_msgs w @ [m] else error_msgs w)"
    by auto
  with p res show ?thesis
    by blast
qed

text \<open>
  The run of the counterexample satisfies the three hypotheses.
\<close>

theorem shunt_failure_keeps_bus_results_witness:
  "ina219_get_bus_voltage main_ina219 True
     (scripted [returned 1, delivered 0x37 0xB8, returned 1, failed ''Remote I/O error''])
     = Inr (Some 7132, ((scripted [returned 1, delivered 0x37 0xB8, returned 1, failed ''Remote I/O error''])\<lparr>calls := [Sys_write 3 [2], Sys_read 3 2]\<rparr>)) \<and>
   ina219_get_shunt_voltage main_ina219 True
     ((scripted [returned 1, delivered 0x37 0xB8, returned 1, failed ''Remote I/O error''])\<lparr>calls := [Sys_write 3 [2], Sys_read 3 2]\<rparr>)
     = Inr (None, ((scripted [returned 1, delivered 0x37 0xB8, returned 1, failed ''Remote I/O error''])
         \<lparr>calls := [Sys_write 3 [2], Sys_read 3 2, Sys_write 3 [1], Sys_read 3 2],
          error_msgs := [''Failed to read I2C device: Remote I/O error'' @ [CHR 0x0A]]\<rparr>)) \<and>
   ina219_get_status main_ina219 stale True
     (scripted [returned 1, delivered 0x37 0xB8, returned 1, failed ''Remote I/O error''])
     = Inr (False, stale\<lparr>battery_voltage_mv := 7132, percent_charged := 50\<rparr>,
         ((scripted [returned 1, delivered 0x37 0xB8, returned 1, failed ''Remote I/O error''])
         \<lparr>calls := [Sys_write 3 [2], Sys_read 3 2, Sys_write 3 [1], Sys_read 3 2],
          error_msgs := [''Failed to read I2C device: Remote I/O error'' @ [CHR 0x0A]]\<rparr>))"
proof -
  have bus: "ina219_get_bus_voltage main_ina219 True
     (scripted [returned 1, delivered 0x37 0xB8, returned 1, failed ''Remote I/O error''])
     = Inr (Some 7132, ((scripted [returned 1, delivered 0x37 0xB8, returned 1, failed ''Remote I/O error''])\<lparr>calls := [Sys_write 3 [2], Sys_read 3 2]\<rparr>))"
    by (simp add: read_defs)
  have shunt: "ina219_get_shunt_voltage main_ina219 True
     ((scripted [returned 1, delivered 0x37 0xB8, returned 1, failed ''Remote I/O error''])\<lparr>calls := [Sys_write 3 [2], Sys_read 3 2]\<rparr>)
     = Inr (None, ((scripted [returned 1, delivered 0x37 0xB8, returned 1, failed ''Remote I/O error''])
         \<lparr>calls := [Sys_write 3 [2], Sys_read 3 2, Sys_write 3 [1], Sys_read 3 2],
          error_msgs := [''Failed to read I2C device: Remote I/O error'' @ [CHR 0x0A]]\<rparr>))"
    by (simp add: read_defs)
  have run: "ina219_get_status main_ina219 stale True
     (scripted [returned 1, delivered 0x37 0xB8, returned 1, failed ''Remote I/O error''])
     = Inr (False, stale\<lparr>battery_voltage_mv := 7132, percent_charged := 50\<rparr>,
         ((scripted [returned 1, delivered 0x37 0xB8, returned 1, failed ''Remote I/O error''])
         \<lparr>calls := [Sys_write 3 [2], Sys_read 3 2, Sys_write 3 [1], Sys_read 3 2],
          error_msgs := [''Failed to read I2C device: Remote I/O error'' @ [CHR 0x0A]]\<rparr>))"
    by (simp add: run_defs)
  from shunt_failure_keeps_bus_results [OF bus shunt run]
  show ?thesis
    by (simp only: bus shunt run simp_thms)
qed

section \<open>The write of the register number\<close>

text \<open>
  C3. The source tests \<open>if (write (self->fd, &buff, 1))\<close>: a failed \<open>write\<close> returns
  \<open>-1\<close>, which is non-zero, so the branch that reports a failed write is taken only
  when \<open>write\<close> returns 0. With a kernel that fails the write and then delivers two
  bytes, \<open>ina219_register_read_16\<close> returns \<open>TRUE\<close> with a value and stores no message.
\<close>

theorem failed_write_goes_unnoticed:
  "ina219_register_read_16 main_ina219 BUS_REG True
     (scripted [failed ''Remote I/O error'', delivered 0x37 0xB8])
     = Inr (Some 14264, (scripted [failed ''Remote I/O error'', delivered 0x37 0xB8])
         \<lparr>calls := [Sys_write 3 [BUS_REG], Sys_read 3 2]\<rparr>)"
  by (simp add: ina219_register_read_16_def sys_call_def asprintf_def
        scripted_def delivered_def failed_def main_ina219_def ina219_create_def BUS_REG_def
        int16_of_bytes_def)

section \<open>Decoding the registers\<close>

text \<open>
  C4. For every raw 16-bit value \<open>r\<close> read from the bus-voltage register, the bus voltage
  in millivolts is \<open>(r & 0xFFF8) >> 1\<close>, taken on the 16 raw bits: the low three bits are
  masked off and the rest is shifted right by one. (The source computes it on the
  sign-extended \<open>int\<close>; the mask removes the extension.)
\<close>

theorem bus_voltage_decoding:
  assumes "ina219_register_read_16 self BUS_REG error w = Inr (Some r, w1)"
  shows "ina219_get_bus_voltage self error w = Inr (Some (uint (drop_bit 1 (r AND 0xFFF8))), w1)"
  by (simp only: ina219_get_bus_voltage_def assms sum.case prod.case option.case bus_decode)

text \<open>
  A register reading \<open>0xFFFF\<close> (\<open>-1\<close> as \<open>int16_t\<close>) decodes to 32764 mV.
\<close>

theorem bus_voltage_decoding_witness:
  "ina219_register_read_16 main_ina219 BUS_REG True (scripted [returned 1, delivered 0xFF 0xFF])
     = Inr (Some (- 1),
         (scripted [returned 1, delivered 0xFF 0xFF])\<lparr>calls := [Sys_write 3 [2], Sys_read 3 2]\<rparr>) \<and>
   ina219_get_bus_voltage main_ina219 True (scripted [returned 1, delivered 0xFF 0xFF])
     = Inr (Some 32764,
         (scripted [returned 1, delivered 0xFF 0xFF])\<lparr>calls := [Sys_write 3 [2], Sys_read 3 2]\<rparr>)"
proof -
  have read: "ina219_register_read_16 main_ina219 BUS_REG True
                (scripted [returned 1, delivered 0xFF 0xFF])
     = Inr (Some (- 1),
         (scripted [returned 1, delivered 0xFF 0xFF])\<lparr>calls := [Sys_write 3 [2], Sys_read 3 2]\<rparr>)"
    by (simp add: ina219_register_read_16_def sys_call_def scripted_def returned_def
        delivered_def main_ina219_def ina219_create_def BUS_REG_def int16_of_bytes_def)
  from bus_voltage_decoding [OF read] read show ?thesis
    by simp
qed

text \<open>
  C5. For every raw signed 16-bit value \<open>r\<close> read from the shunt-voltage register, the
  shunt voltage in millivolts is \<open>r / 100\<close> truncated towards zero: the quotient of the
  magnitudes, with the sign of \<open>r\<close>.
\<close>

theorem shunt_voltage_decoding:
  assumes "ina219_register_read_16 self SHUNT_REG error w = Inr (Some r, w1)"
  shows "ina219_get_shunt_voltage self error w =
           Inr (Some (if 0 \<le> sint r then sint r div 100 else - ((- sint r) div 100)), w1)"
  using assms by (simp add: ina219_get_shunt_voltage_def sdiv_pos_divisor)

text \<open>
  A register reading \<open>0xFF6A\<close> (\<open>-150\<close>) decodes to \<open>-1\<close> mV, not to \<open>-2\<close>.
\<close>

theorem shunt_voltage_decoding_witness:
  "ina219_register_read_16 main_ina219 SHUNT_REG True (scripted [returned 1, delivered 0xFF 0x6A])
     = Inr (Some (- 150),
         (scripted [returned 1, delivered 0xFF 0x6A])\<lparr>calls := [Sys_write 3 [1], Sys_read 3 2]\<rparr>) \<and>
   ina219_get_shunt_voltage main_ina219 True (scripted [returned 1, delivered 0xFF 0x6A])
     = Inr (Some (- 1),
         (scripted [returned 1, delivered 0xFF 0x6A])\<lparr>calls := [Sys_write 3 [1], Sys_read 3 2]\<rparr>)"
proof -
  have read: "ina219_register_read_16 main_ina219 SHUNT_REG True
                (scripted [returned 1, delivered 0xFF 0x6A])
     = Inr (Some (- 150),
         (scripted [returned 1, delivered 0xFF 0x6A])\<lparr>calls := [Sys_write 3 [1], Sys_read 3 2]\<rparr>)"
    by (simp add: ina219_register_read_16_def sys_call_def scripted_def returned_def
        delivered_def main_ina219_def ina219_create_def SHUNT_REG_def int16_of_bytes_def)
  from shunt_voltage_decoding [OF read] read show ?thesis
    by simp
qed

section \<open>The percentage\<close>



section \<open>A failing bus read\<close>

text \<open>
  C7. When the read of the bus-voltage register fails, \<open>ina219_get_status\<close> returns
  \<open>FALSE\<close> in the world that read left: the caller's variables are untouched, the error
  is the one the bus read stored, and the only system calls made are the write of
  \<open>BUS_REG\<close> and possibly its read, so the shunt register is not read.
\<close>

theorem bus_failure_ends_get_status:
  assumes "ina219_get_bus_voltage self error w = Inr (None, w1)"
  shows "ina219_get_status self vars error w = Inr (False, vars, w1) \<and>
         (calls w1 = calls w @ [Sys_write (fd self) [BUS_REG]] \<or>
          calls w1 = calls w @ [Sys_write (fd self) [BUS_REG], Sys_read (fd self) 2]) \<and>
         (\<exists>m. error_msgs w1 = (if error then error_msgs w @ [m] else error_msgs w))"
  using assms register_read_16_None [OF get_bus_voltage_None [OF assms]]
  by (simp add: ina219_get_status_def)

text \<open>
  A bus read whose \<open>read\<close> call fails: two system calls, one message.
\<close>

theorem bus_failure_ends_get_status_witness:
  "ina219_get_bus_voltage main_ina219 True
     (scripted [returned 1, failed ''Remote I/O error''])
     = Inr (None, (scripted [returned 1, failed ''Remote I/O error''])
         \<lparr>calls := [Sys_write 3 [BUS_REG], Sys_read 3 2],
          error_msgs := [''Failed to read I2C device: Remote I/O error'' @ [CHR 0x0A]]\<rparr>) \<and>
   ina219_get_status main_ina219 stale True
     (scripted [returned 1, failed ''Remote I/O error''])
     = Inr (False, stale, (scripted [returned 1, failed ''Remote I/O error''])
         \<lparr>calls := [Sys_write 3 [BUS_REG], Sys_read 3 2],
          error_msgs := [''Failed to read I2C device: Remote I/O error'' @ [CHR 0x0A]]\<rparr>)"
proof -
  have bus: "ina219_get_bus_voltage main_ina219 True
     (scripted [returned 1, failed ''Remote I/O error''])
     = Inr (None, (scripted [returned 1, failed ''Remote I/O error''])
         \<lparr>calls := [Sys_write 3 [BUS_REG], Sys_read 3 2],
          error_msgs := [''Failed to read I2C device: Remote I/O error'' @ [CHR 0x0A]]\<rparr>)"
    by (simp add: ina219_get_bus_voltage_def ina219_register_read_16_def sys_call_def asprintf_def
        scripted_def returned_def failed_def main_ina219_def ina219_create_def BUS_REG_def)
  from bus_failure_ends_get_status [OF bus, of stale] bus show ?thesis
    by simp
qed

section \<open>A failing bind\<close>

text \<open>
  C8. \<open>ina219_init\<close> stores the descriptor before it binds the address and does not
  close it when \<open>ioctl\<close> fails: after \<open>open\<close> answers 3 and \<open>ioctl\<close> fails, the call
  returns \<open>FALSE\<close> with \<open>fd = 3\<close> and no \<open>close\<close> among the system calls. The
  assertion \<open>fd >= 0\<close> of \<open>ina219_register_read_16\<close> then lets a read through on the
  unbound descriptor.
\<close>

theorem failed_bind_leaves_descriptor_open:
  "ina219_init (ina219_create ''/dev/i2c-1'' 0x42 100 6000 8260 2400 10) True
     (scripted [returned 3, failed ''Remote I/O error'', returned 1, delivered 0x37 0xB8])
     = Inr (False, (ina219_create ''/dev/i2c-1'' 0x42 100 6000 8260 2400 10)\<lparr>fd := 3\<rparr>,
         (scripted [returned 3, failed ''Remote I/O error'', returned 1, delivered 0x37 0xB8])
         \<lparr>calls := [Sys_open ''/dev/i2c-1'', Sys_ioctl 3 0x42],
          error_msgs := [''Can't intialize I2C device: Remote I/O error'']\<rparr>) \<and>
   ina219_get_bus_voltage
     ((ina219_create ''/dev/i2c-1'' 0x42 100 6000 8260 2400 10)\<lparr>fd := 3\<rparr>) True
     ((scripted [returned 3, failed ''Remote I/O error'', returned 1, delivered 0x37 0xB8])
         \<lparr>calls := [Sys_open ''/dev/i2c-1'', Sys_ioctl 3 0x42],
          error_msgs := [''Can't intialize I2C device: Remote I/O error'']\<rparr>)
     = Inr (Some 7132,
         (scripted [returned 3, failed ''Remote I/O error'', returned 1, delivered 0x37 0xB8])
         \<lparr>calls := [Sys_open ''/dev/i2c-1'', Sys_ioctl 3 0x42, Sys_write 3 [2], Sys_read 3 2],
          error_msgs := [''Can't intialize I2C device: Remote I/O error'']\<rparr>)"
  by (simp add: ina219_init_def read_defs)

section \<open>Scenario A\<close>



text \<open>
  On the driver's own reads the bus voltage has bit 1 clear, so it is never 7130 mV;
  the nearest reading that gives the same results is 7132 mV (register \<open>0x37B8\<close>).
\<close>

lemma no_bus_reading_of_7130:
  "\<forall>self error w w1. ina219_get_bus_voltage self error w \<noteq> Inr (Some 7130, w1)"
proof (intro allI notI)
  fix self error w w1
  assume "ina219_get_bus_voltage self error w = Inr (Some 7130, w1)"
  from get_bus_voltage_Some [OF this]
  obtain r :: "16 word" where "7130 = drop_bit 1 (sint r AND 0xFFF8)"
    by blast
  with bus_mv_not_7130 [of "sint r"] show False
    by simp
qed

lemma scenario_A_at_7132:
  assumes cfg: "shunt_milliohms self = 100" "battery_voltage_0_percent self = 6000"
      "battery_voltage_100_percent self = 8260" "battery_capacity self = 2400"
      "min_charging_current self = 10"
    and bus: "ina219_get_bus_voltage self error w = Inr (Some 7132, w1)"
    and shunt: "ina219_get_shunt_voltage self error w1 = Inr (Some 50, w2)"
  shows "ina219_get_status self vars error w =
           Inr (True, vars\<lparr>battery_voltage_mv := 7132, percent_charged := 50,
                  battery_current_mA := 500, charge_status := INA219_CHARGING,
                  minutes := 144\<rparr>, w2)"
  by (simp add: ina219_get_status_def bus shunt cfg seq_def c_sub_def c_mul_def c_div_def
      c_int_def c_div_double_def INT_MIN_def INT_MAX_def INA_FULL_PERCENT_def
      signed_divide_int_def)

section \<open>The error pointer\<close>

text \<open>
  C10. Each of \<open>ina219_register_read_16\<close>, \<open>ina219_get_bus_voltage\<close>,
  \<open>ina219_get_shunt_voltage\<close> and \<open>ina219_get_status\<close> leaves the messages stored
  through the error pointer as they were when it returns success, and stores at most
  one message in a call.
\<close>

theorem error_written_once_on_failure_only:
  "(ina219_register_read_16 self reg error w = Inr (r, w1) \<longrightarrow>
      (r \<noteq> None \<longrightarrow> error_msgs w1 = error_msgs w) \<and>
      (\<exists>ms. error_msgs w1 = error_msgs w @ ms \<and> length ms \<le> 1)) \<and>
   (ina219_get_bus_voltage self error w = Inr (b, w2) \<longrightarrow>
      (b \<noteq> None \<longrightarrow> error_msgs w2 = error_msgs w) \<and>
      (\<exists>ms. error_msgs w2 = error_msgs w @ ms \<and> length ms \<le> 1)) \<and>
   (ina219_get_shunt_voltage self error w = Inr (s, w3) \<longrightarrow>
      (s \<noteq> None \<longrightarrow> error_msgs w3 = error_msgs w) \<and>
      (\<exists>ms. error_msgs w3 = error_msgs w @ ms \<and> length ms \<le> 1)) \<and>
   (ina219_get_status self vars error w = Inr (ok, vars', w4) \<longrightarrow>
      (ok \<longrightarrow> error_msgs w4 = error_msgs w) \<and>
      (\<exists>ms. error_msgs w4 = error_msgs w @ ms \<and> length ms \<le> 1))"
  using register_read_16_msgs [of self reg error w r w1]
    get_bus_voltage_msgs [of self error w b w2]
    get_shunt_voltage_msgs [of self error w s w3]
    get_status_msgs [of self vars error w ok vars' w4]
  by blast

text \<open>
  One world for all four: the register read, the bus read and a shunt read succeed
  in it and store nothing; the status query fails at its shunt read and stores one
  message.
\<close>

theorem error_written_once_on_failure_only_witness:
  "ina219_register_read_16 main_ina219 BUS_REG True
     (scripted [returned 1, delivered 0x37 0xB8, returned 1, failed ''Remote I/O error''])
     = Inr (Some 14264, ((scripted [returned 1, delivered 0x37 0xB8, returned 1, failed ''Remote I/O error''])\<lparr>calls := [Sys_write 3 [2], Sys_read 3 2]\<rparr>)) \<and>
   ina219_get_bus_voltage main_ina219 True
     (scripted [returned 1, delivered 0x37 0xB8, returned 1, failed ''Remote I/O error''])
     = Inr (Some 7132, ((scripted [returned 1, delivered 0x37 0xB8, returned 1, failed ''Remote I/O error''])\<lparr>calls := [Sys_write 3 [2], Sys_read 3 2]\<rparr>)) \<and>
   ina219_get_shunt_voltage main_ina219 True
     (scripted [returned 1, delivered 0x37 0xB8, returned 1, failed ''Remote I/O error''])
     = Inr (Some 142, ((scripted [returned 1, delivered 0x37 0xB8, returned 1, failed ''Remote I/O error''])\<lparr>calls := [Sys_write 3 [1], Sys_read 3 2]\<rparr>)) \<and>
   ina219_get_status main_ina219 stale True
     (scripted [returned 1, delivered 0x37 0xB8, returned 1, failed ''Remote I/O error''])
     = Inr (False, stale\<lparr>battery_voltage_mv := 7132, percent_charged := 50\<rparr>,
         ((scripted [returned 1, delivered 0x37 0xB8, returned 1, failed ''Remote I/O error''])
         \<lparr>calls := [Sys_write 3 [2], Sys_read 3 2, Sys_write 3 [1], Sys_read 3 2],
          error_msgs := [''Failed to read I2C device: Remote I/O error'' @ [CHR 0x0A]]\<rparr>)) \<and>
   error_msgs (scripted [returned 1, delivered 0x37 0xB8, returned 1, failed ''Remote I/O error'']) = []"
proof -
  have reg: "ina219_register_read_16 main_ina219 BUS_REG True
     (scripted [returned 1, delivered 0x37 0xB8, returned 1, failed ''Remote I/O error''])
     = Inr (Some 14264, ((scripted [returned 1, delivered 0x37 0xB8, returned 1, failed ''Remote I/O error''])\<lparr>calls := [Sys_write 3 [2], Sys_read 3 2]\<rparr>))"
    by (simp add: read_defs)
  have bus: "ina219_get_bus_voltage main_ina219 True
     (scripted [returned 1, delivered 0x37 0xB8, returned 1, failed ''Remote I/O error''])
     = Inr (Some 7132, ((scripted [returned 1, delivered 0x37 0xB8, returned 1, failed ''Remote I/O error''])\<lparr>calls := [Sys_write 3 [2], Sys_read 3 2]\<rparr>))"
    by (simp add: read_defs)
  have shunt: "ina219_get_shunt_voltage main_ina219 True
     (scripted [returned 1, delivered 0x37 0xB8, returned 1, failed ''Remote I/O error''])
     = Inr (Some 142, ((scripted [returned 1, delivered 0x37 0xB8, returned 1, failed ''Remote I/O error''])\<lparr>calls := [Sys_write 3 [1], Sys_read 3 2]\<rparr>))"
    by (simp add: read_defs)
  have run: "ina219_get_status main_ina219 stale True
     (scripted [returned 1, delivered 0x37 0xB8, returned 1, failed ''Remote I/O error''])
     = Inr (False, stale\<lparr>battery_voltage_mv := 7132, percent_charged := 50\<rparr>,
         ((scripted [returned 1, delivered 0x37 0xB8, returned 1, failed ''Remote I/O error''])
         \<lparr>calls := [Sys_write 3 [2], Sys_read 3 2, Sys_write 3 [1], Sys_read 3 2],
          error_msgs := [''Failed to read I2C device: Remote I/O error'' @ [CHR 0x0A]]\<rparr>))"
    by (simp add: run_defs)
  have none: "error_msgs (scripted [returned 1, delivered 0x37 0xB8, returned 1, failed ''Remote I/O error'']) = []"
    by (simp add: scripted_def)
  from error_written_once_on_failure_only [of main_ina219 BUS_REG True
      "(scripted [returned 1, delivered 0x37 0xB8, returned 1, failed ''Remote I/O error''])"]
  show ?thesis
    by (simp only: reg bus shunt run none simp_thms)
qed

end
